theory Spec2Isabelle
  imports Complex_Main
begin

section \<open>Values, dates and rows of the expectation sheet\<close>

text \<open>
  The server functions for coaching expectations (\<^verbatim>\<open>validateExpectation\<close>,
  \<^verbatim>\<open>checkForOverlap\<close>, \<^verbatim>\<open>addNewExpectation\<close>, \<^verbatim>\<open>updateExpectationData\<close>,
  \<^verbatim>\<open>setExpectationStatus\<close>, \<^verbatim>\<open>updateModifiedBy\<close>) work on the sheet
  \<^verbatim>\<open>tbl_coaching_expectations\<close>: two header rows, then one row per expectation with the
  columns id, resourceId, performance, oneToOne, sideBySide, startDate, endDate,
  expectationType, active, createdBy, createdDate, modifiedBy, modifiedDate.

  The three cadence counts are tested with \<^verbatim>\<open>typeof\<close>, so they are JavaScript values.
  A finite number is a rational (every finite double is one); the two infinities and NaN
  are numbers of their own.
\<close>

datatype jsval =
    JNum rat | JInfinity | JNegInfinity | JNaN
  | JStr string | JBool bool | JNull | JUndefined

fun typeof :: "jsval \<Rightarrow> string" where
  "typeof (JNum n) = ''number''"
| "typeof JInfinity = ''number''"
| "typeof JNegInfinity = ''number''"
| "typeof JNaN = ''number''"
| "typeof (JStr s) = ''string''"
| "typeof (JBool b) = ''boolean''"
| "typeof JNull = ''object''"
| "typeof JUndefined = ''undefined''"

text \<open>\<^verbatim>\<open>x >= 0\<close> for a value whose \<^verbatim>\<open>typeof\<close> is number: true for \<^verbatim>\<open>Infinity\<close>, false for
  \<^verbatim>\<open>-Infinity\<close> and NaN. The source evaluates it only behind the \<^verbatim>\<open>typeof\<close> test.\<close>

fun ge0 :: "jsval \<Rightarrow> bool" where
  "ge0 (JNum n) = (0 \<le> n)"
| "ge0 JInfinity = True"
| "ge0 _ = False"

text \<open>
  A date field stands for what \<^verbatim>\<open>new Date(field)\<close> yields: \<open>Some t\<close> with \<open>t\<close> the time
  value of the Date, an instant in milliseconds counted from 1970-01-01T00:00Z, or \<open>None\<close>
  for an Invalid Date. The source compares Date objects with \<^verbatim>\<open>>=\<close> and \<^verbatim>\<open><=\<close>, that is,
  their time values; every comparison with an Invalid Date is false.
\<close>

type_synonym jsdate = "int option"

fun date_ge :: "jsdate \<Rightarrow> jsdate \<Rightarrow> bool" where
  "date_ge (Some a) (Some b) = (b \<le> a)"
| "date_ge _ _ = False"

fun date_le :: "jsdate \<Rightarrow> jsdate \<Rightarrow> bool" where
  "date_le (Some a) (Some b) = (a \<le> b)"
| "date_le _ _ = False"

text \<open>
  \<^verbatim>\<open>new Date('1/1/1990')\<close> and \<^verbatim>\<open>new Date('12/31/3000')\<close> are read in the time zone of the
  script: each is the instant of local midnight at the start of that day. 1990-01-01 is
  day 7305 and 3000-12-31 is day 376564 counted from 1970-01-01; in a zone whose local time
  is UTC plus \<open>off\<close> milliseconds, local midnight of day \<open>d\<close> is the instant below.
\<close>

definition msPerDay :: int where
  "msPerDay = 86400000"

definition day_1990 :: int where
  "day_1990 = 7305"

definition day_3000 :: int where
  "day_3000 = 376564"

definition localMidnight :: "int \<Rightarrow> int \<Rightarrow> int" where
  "localMidnight off d = d * msPerDay - off"

text \<open>The expectation object a caller passes to the server.\<close>

record expectation =
  resourceId :: int
  performance :: jsval
  oneToOne :: jsval
  sideBySide :: jsval
  startDate :: jsdate
  endDate :: jsdate
  expectationType :: string
  active :: bool

text \<open>A data row of the sheet: the id in column 1, the eight fields in columns 2 to 9,
  the audit cells in columns 10 to 13 (\<open>None\<close> is a blank cell). Ids and resource ids are
  integer-valued numbers and expectation types are strings, in the sheet and in the
  arguments alike, so that \<^verbatim>\<open>===\<close> and \<^verbatim>\<open>!==\<close> are equality and \<^verbatim>\<open>Number\<close> changes nothing.
  An id is the integer its double holds.\<close>

record row = expectation +
  expId :: int
  createdBy :: "int option"
  createdDate :: "string option"
  modifiedBy :: "int option"
  modifiedDate :: "string option"

datatype cell = CNum int | CText string | CBool bool

datatype error =
    InitFailed
  | RangeException
  | ValidationFailed
  | ConflictingExpectation int
  | NotFound int
  | LockTimeout

text \<open>What the functions take from outside the sheet: whether the spreadsheet handle
  \<^verbatim>\<open>COACHING_SHEET\<close> is available (already set, or set by an \<^verbatim>\<open>initialize\<close> that does not
  reject), the employee id \<^verbatim>\<open>getUserEmID\<close> finds for the caller (\<open>None\<close> when it throws),
  the formatted date of the day, the offset from UTC of the script's time zone on
  1990-01-01 and on 3000-12-31 (milliseconds, negative west of Greenwich), and what
  \<^verbatim>\<open>parseInt\<close> reads from a number it is given in exponent notation.\<close>

record env =
  coachingSheet :: bool
  userEmID :: "int option"
  today :: string
  utcOffset1990 :: int
  utcOffset3000 :: int
  parseIntExp :: "int \<Rightarrow> int"

section \<open>The sheet\<close>

text \<open>
  The state is the list of data rows, in sheet order (sheet row 3 is index 0).
  \<^verbatim>\<open>sheet.getRange(3, 1, sheet.getLastRow() - 2, ..).getValues()\<close> reads all of them; with
  no data row the requested range has zero rows and the spreadsheet service throws.
\<close>

definition getRange3 :: "row list \<Rightarrow> error + row list" where
  "getRange3 sheet = (if sheet = [] then Inl RangeException else Inr sheet)"

text \<open>\<^verbatim>\<open>Array.prototype.findIndex\<close>: the first index whose element passes, or -1.\<close>

fun findIndex :: "('a \<Rightarrow> bool) \<Rightarrow> 'a list \<Rightarrow> int" where
  "findIndex P [] = -1"
| "findIndex P (x # xs) =
     (if P x then 0 else (let k = findIndex P xs in if k = -1 then -1 else k + 1))"

text \<open>
  \<^verbatim>\<open>parseInt(n)\<close> for an integer-valued number converts it to a string first. Below 10^21
  in magnitude the string holds the decimal digits of the number, which read back as the
  same double. From 10^21 on the string is in exponent notation (\<^verbatim>\<open>1e+21\<close>) and
  \<^verbatim>\<open>parseInt\<close> stops at the point or the \<^verbatim>\<open>e\<close>: what it reads then is taken from the
  environment.
\<close>

definition parseInt :: "env \<Rightarrow> int \<Rightarrow> int" where
  "parseInt ev n = (if \<bar>n\<bar> < 10 ^ 21 then n else parseIntExp ev n)"

text \<open>
  Arithmetic on ids is arithmetic on doubles. Up to 2^53 in magnitude every integer is a
  double; from there on the doubles between 2^k and 2^(k+1) are the multiples of
  2^(k-52). \<open>binadeUlp\<close> is that spacing for a magnitude, and \<open>dblRound\<close> rounds an integer
  to the nearest double, a tie going to the even multiple. It is applied to an id plus 1,
  which stays within the range of the doubles.
\<close>

function binadeUlp :: "int \<Rightarrow> int" where
  "binadeUlp n = (if n < 2 ^ 53 then 1 else 2 * binadeUlp (n div 2))"
  by pat_completeness auto
termination
  by (relation "measure nat") auto

definition dblRound :: "int \<Rightarrow> int" where
  "dblRound n =
     (let u = binadeUlp \<bar>n\<bar>; q = n div u; r = n mod u
      in if 2 * r < u then q * u
         else if u < 2 * r then (q + 1) * u
         else if even q then q * u else (q + 1) * u)"

text \<open>\<^verbatim>\<open>Math.max(...xs)\<close>; \<open>None\<close> stands for the \<^verbatim>\<open>-Infinity\<close> of no arguments.\<close>

fun math_max :: "int list \<Rightarrow> int option" where
  "math_max [] = None"
| "math_max (x # xs) = (case math_max xs of None \<Rightarrow> Some x | Some m \<Rightarrow> Some (max x m))"

text \<open>Writing one cell of a data row. Only the columns these functions write are there.\<close>

definition writeCell :: "row \<Rightarrow> int \<Rightarrow> cell \<Rightarrow> row" where
  "writeCell r col v =
     (if col = 9 then (case v of CBool b \<Rightarrow> r\<lparr>active := b\<rparr> | _ \<Rightarrow> r)
      else if col = 10 then (case v of CNum n \<Rightarrow> r\<lparr>createdBy := Some n\<rparr> | _ \<Rightarrow> r)
      else if col = 11 then (case v of CText s \<Rightarrow> r\<lparr>createdDate := Some s\<rparr> | _ \<Rightarrow> r)
      else if col = 12 then (case v of CNum n \<Rightarrow> r\<lparr>modifiedBy := Some n\<rparr> | _ \<Rightarrow> r)
      else if col = 13 then (case v of CText s \<Rightarrow> r\<lparr>modifiedDate := Some s\<rparr> | _ \<Rightarrow> r)
      else r)"

text \<open>\<^verbatim>\<open>sheet.getRange(rowN, col).setValue(v)\<close> on a data row.\<close>

definition setValue :: "row list \<Rightarrow> int \<Rightarrow> int \<Rightarrow> cell \<Rightarrow> row list" where
  "setValue sheet rowN col v =
     (if 3 \<le> rowN \<and> nat (rowN - 3) < length sheet
      then sheet[nat (rowN - 3) := writeCell (sheet ! nat (rowN - 3)) col v]
      else sheet)"

text \<open>\<^verbatim>\<open>sheet.getRange(rowN, 2, 1, 8).setValues([updatedRow])\<close>: columns 2 to 9 of one row.\<close>

definition setValues :: "row list \<Rightarrow> int \<Rightarrow> expectation \<Rightarrow> row list" where
  "setValues sheet rowN e =
     (if 3 \<le> rowN \<and> nat (rowN - 3) < length sheet
      then sheet[nat (rowN - 3) := (sheet ! nat (rowN - 3))
             \<lparr>resourceId := resourceId e, performance := performance e,
              oneToOne := oneToOne e, sideBySide := sideBySide e,
              startDate := startDate e, endDate := endDate e,
              expectationType := expectationType e, active := active e\<rparr>]
      else sheet)"

text \<open>\<^verbatim>\<open>sheet.appendRow(newRow)\<close> with the nine cells of \<^verbatim>\<open>newRow\<close>; the audit cells are
  blank.\<close>

definition appendRow :: "row list \<Rightarrow> int \<Rightarrow> expectation \<Rightarrow> row list" where
  "appendRow sheet newId e =
     sheet @ [\<lparr>resourceId = resourceId e, performance = performance e,
               oneToOne = oneToOne e, sideBySide = sideBySide e,
               startDate = startDate e, endDate = endDate e,
               expectationType = expectationType e, active = active e,
               expId = newId, createdBy = None, createdDate = None,
               modifiedBy = None, modifiedDate = None\<rparr>]"

definition getLastRow :: "row list \<Rightarrow> int" where
  "getLastRow sheet = int (length sheet) + 2"

text \<open>
  \<^verbatim>\<open>updateModifiedBy\<close>: stamps the employee id and the date into two columns of a row. When
  \<^verbatim>\<open>getUserEmID\<close> throws, neither cell is written. The callers do not await it, so its
  failure is not theirs.
\<close>

definition updateModifiedBy :: "env \<Rightarrow> row list \<Rightarrow> int \<Rightarrow> int \<Rightarrow> int \<Rightarrow> row list" where
  "updateModifiedBy ev sheet rowToEdit emIdColumn dateColumn =
     (case userEmID ev of
        None \<Rightarrow> sheet
      | Some emId \<Rightarrow>
          setValue (setValue sheet rowToEdit emIdColumn (CNum emId))
            rowToEdit dateColumn (CText (today ev)))"

section \<open>Validator\<close>

definition validateExpectation :: "env \<Rightarrow> expectation \<Rightarrow> error + unit" where
  "validateExpectation ev e =
     (if typeof (performance e) = ''number'' \<and> ge0 (performance e) \<and>
         typeof (oneToOne e) = ''number'' \<and> ge0 (oneToOne e) \<and>
         typeof (sideBySide e) = ''number'' \<and> ge0 (sideBySide e) \<and>
         date_ge (startDate e) (Some (localMidnight (utcOffset1990 ev) day_1990)) \<and>
         date_le (endDate e) (Some (localMidnight (utcOffset3000 ev) day_3000)) \<and>
         date_ge (endDate e) (startDate e)
      then Inr ()
      else Inl ValidationFailed)"

section \<open>Overlap detector\<close>

text \<open>The three-way date test of \<^verbatim>\<open>checkForOverlap\<close>, new dates first.\<close>

definition overlapTest :: "jsdate \<Rightarrow> jsdate \<Rightarrow> jsdate \<Rightarrow> jsdate \<Rightarrow> bool" where
  "overlapTest newStartDate newEndDate existingStartDate existingEndDate =
     ((date_ge newStartDate existingStartDate \<and> date_le newStartDate existingEndDate) \<or>
      (date_ge newEndDate existingStartDate \<and> date_le newEndDate existingEndDate) \<or>
      (date_le newStartDate existingStartDate \<and> date_ge newEndDate existingEndDate))"

text \<open>The \<^verbatim>\<open>for (const row of data)\<close> loop.\<close>

fun scanRows :: "row list \<Rightarrow> int \<Rightarrow> string \<Rightarrow> jsdate \<Rightarrow> jsdate \<Rightarrow> int \<Rightarrow> int" where
  "scanRows [] rid ty sd ed newIgnoreId = -1"
| "scanRows (r # rs) rid ty sd ed newIgnoreId =
     (if active r \<and> resourceId r = rid \<and> expectationType r = ty \<and> expId r \<noteq> newIgnoreId
      then (if overlapTest sd ed (startDate r) (endDate r) then expId r
            else scanRows rs rid ty sd ed newIgnoreId)
      else scanRows rs rid ty sd ed newIgnoreId)"

text \<open>\<^verbatim>\<open>checkForOverlap\<close>; \<^verbatim>\<open>ignoreId\<close> defaults to -1 at the call sites that omit it.\<close>

definition checkForOverlap ::
  "env \<Rightarrow> row list \<Rightarrow> int \<Rightarrow> string \<Rightarrow> jsdate \<Rightarrow> jsdate \<Rightarrow> int \<Rightarrow> error + int" where
  "checkForOverlap ev sheet rid ty sd ed ignoreId =
     (case getRange3 sheet of
        Inl err \<Rightarrow> Inl err
      | Inr data \<Rightarrow>
          let newIgnoreId = parseInt ev ignoreId
          in Inr (scanRows data rid ty sd ed newIgnoreId))"

section \<open>Repository operations\<close>

text \<open>Each operation takes the sheet and returns its outcome together with the sheet it
  leaves behind; a \<^verbatim>\<open>throw\<close> is an \<open>Inl\<close> outcome.\<close>

text \<open>\<^verbatim>\<open>addNewExpectation\<close>. The id column is read after the overlap check has read the
  sheet, so it is never empty there and the \<open>None\<close> branch of \<open>math_max\<close> is not reached.
  \<^verbatim>\<open>Math.max(...) + 1\<close> is an addition of doubles.\<close>

definition addNewExpectation :: "env \<Rightarrow> expectation \<Rightarrow> row list \<Rightarrow> (error + int) \<times> row list" where
  "addNewExpectation ev e sheet =
     (if \<not> coachingSheet ev then (Inl InitFailed, sheet)
      else case checkForOverlap ev sheet (resourceId e) (expectationType e)
                  (startDate e) (endDate e) (-1) of
        Inl err \<Rightarrow> (Inl err, sheet)
      | Inr isValid \<Rightarrow>
          if isValid \<noteq> -1 then (Inl (ConflictingExpectation isValid), sheet)
          else (case getRange3 sheet of
             Inl err \<Rightarrow> (Inl err, sheet)
           | Inr idColumn \<Rightarrow>
               (case math_max (map expId idColumn) of
                  None \<Rightarrow> (Inl RangeException, sheet)
                | Some m \<Rightarrow>
                    let newId = dblRound (m + 1);
                        sheet1 = appendRow sheet newId e;
                        lastRow = getLastRow sheet1
                    in (Inr newId, updateModifiedBy ev sheet1 lastRow 10 11))))"

definition updateExpectationData ::
  "env \<Rightarrow> int \<Rightarrow> expectation \<Rightarrow> row list \<Rightarrow> (error + unit) \<times> row list" where
  "updateExpectationData ev expectationId e sheet =
     (if \<not> coachingSheet ev then (Inl InitFailed, sheet)
      else case validateExpectation ev e of
        Inl err \<Rightarrow> (Inl err, sheet)
      | Inr u \<Rightarrow>
         (case getRange3 sheet of
            Inl err \<Rightarrow> (Inl err, sheet)
          | Inr idColumn \<Rightarrow>
              let rowToEdit = findIndex (\<lambda>r. expId r = expectationId) idColumn + 3 in
              if 3 \<le> rowToEdit then
                (case checkForOverlap ev sheet (resourceId e) (expectationType e)
                        (startDate e) (endDate e) expectationId of
                   Inl err \<Rightarrow> (Inl err, sheet)
                 | Inr isValid \<Rightarrow>
                     if isValid \<noteq> -1 then (Inl (ConflictingExpectation isValid), sheet)
                     else (Inr (), updateModifiedBy ev (setValues sheet rowToEdit e)
                                     rowToEdit 12 13))
              else (Inl (NotFound expectationId), sheet)))"

text \<open>
  The overlap check of \<^verbatim>\<open>setExpectationStatus\<close>: made only for \<^verbatim>\<open>isActive\<close>, from the
  cells of row \<^verbatim>\<open>rowToEdit\<close>, with no \<^verbatim>\<open>ignoreId\<close> argument. When the id was not found,
  \<^verbatim>\<open>rowToEdit\<close> is 2 and the cells read are header labels, which equal no resource id:
  the scan finds nothing. The value -1 also stands for the check that is not made, since
  only another value makes the function throw.
\<close>

definition statusOverlapCheck :: "env \<Rightarrow> row list \<Rightarrow> int \<Rightarrow> bool \<Rightarrow> error + int" where
  "statusOverlapCheck ev sheet rowToEdit isActive =
     (if isActive then
        (if 3 \<le> rowToEdit \<and> nat (rowToEdit - 3) < length sheet then
           (let d = sheet ! nat (rowToEdit - 3)
            in checkForOverlap ev sheet (resourceId d) (expectationType d)
                 (startDate d) (endDate d) (-1))
         else Inr (-1))
      else Inr (-1))"

definition setExpectationStatus ::
  "env \<Rightarrow> int \<Rightarrow> bool \<Rightarrow> row list \<Rightarrow> (error + unit) \<times> row list" where
  "setExpectationStatus ev expectationId isActive sheet =
     (if \<not> coachingSheet ev then (Inl InitFailed, sheet)
      else case getRange3 sheet of
        Inl err \<Rightarrow> (Inl err, sheet)
      | Inr idColumn \<Rightarrow>
          let rowToEdit = findIndex (\<lambda>r. expId r = expectationId) idColumn + 3 in
          (case statusOverlapCheck ev sheet rowToEdit isActive of
             Inl err \<Rightarrow> (Inl err, sheet)
           | Inr isValid \<Rightarrow>
               if isValid \<noteq> -1 then (Inl (ConflictingExpectation isValid), sheet)
               else if 3 \<le> rowToEdit then
                 (Inr (), updateModifiedBy ev (setValue sheet rowToEdit 9 (CBool isActive))
                            rowToEdit 12 13)
               else (Inl (NotFound expectationId), sheet)))"

section \<open>The script lock\<close>

text \<open>
  The script lock as seen by one execution: free, held by this execution, or held by
  another execution that keeps it longer than \<^verbatim>\<open>LOCK_WAIT_TIME\<close>. \<^verbatim>\<open>lock.waitLock\<close> takes a
  free lock and throws when the wait runs out; \<^verbatim>\<open>lock.releaseLock\<close> gives up a lock this
  execution holds.
\<close>

datatype lockstate = LockFree | HeldHere | HeldElsewhere

record world =
  scriptLock :: lockstate
  sheetRows :: "row list"

fun waitLock :: "lockstate \<Rightarrow> error + lockstate" where
  "waitLock LockFree = Inr HeldHere"
| "waitLock HeldHere = Inr HeldHere"
| "waitLock HeldElsewhere = Inl LockTimeout"

fun releaseLock :: "lockstate \<Rightarrow> lockstate" where
  "releaseLock HeldHere = LockFree"
| "releaseLock l = l"

text \<open>\<^verbatim>\<open>_withLock(callback)\<close>: wait for the lock, run the callback, release in
  \<^verbatim>\<open>finally\<close>; a failed wait rejects with the error and the callback is not run. The
  callback is one that has run to its end when it returns, as the synchronous callbacks
  of the form and question functions have.\<close>

definition withLock :: "(world \<Rightarrow> (error + 'a) \<times> world) \<Rightarrow> world \<Rightarrow> (error + 'a) \<times> world" where
  "withLock callback w =
     (case waitLock (scriptLock w) of
        Inl err \<Rightarrow> (Inl err, w\<lparr>scriptLock := releaseLock (scriptLock w)\<rparr>)
      | Inr l \<Rightarrow>
          (case callback (w\<lparr>scriptLock := l\<rparr>) of
             (r, w') \<Rightarrow> (r, w'\<lparr>scriptLock := releaseLock (scriptLock w')\<rparr>)))"

text \<open>The three expectation functions as they are written: they read and write the
  sheet and contain no call of \<^verbatim>\<open>LockService\<close> or \<^verbatim>\<open>_withLock\<close>, so the lock stays as
  they find it.\<close>

definition onSheet :: "(row list \<Rightarrow> 'r \<times> row list) \<Rightarrow> world \<Rightarrow> 'r \<times> world" where
  "onSheet operation w =
     (case operation (sheetRows w) of (r, sheet') \<Rightarrow> (r, w\<lparr>sheetRows := sheet'\<rparr>))"

section \<open>The overlap invariant and the detector's contract\<close>

text \<open>
  Two inclusive date ranges intersect when some instant lies in both. With an Invalid Date
  on either side there is no range and nothing intersects.
\<close>

fun intersects :: "jsdate \<Rightarrow> jsdate \<Rightarrow> jsdate \<Rightarrow> jsdate \<Rightarrow> bool" where
  "intersects (Some a) (Some b) (Some c) (Some d) = (max a c \<le> min b d)"
| "intersects _ _ _ _ = False"

text \<open>A reversed range: both dates are valid and the end lies before the start.\<close>

fun reversed :: "jsdate \<Rightarrow> jsdate \<Rightarrow> bool" where
  "reversed (Some a) (Some b) = (b < a)"
| "reversed _ _ = False"

text \<open>A half-valid range: exactly one of the two dates is an Invalid Date.\<close>

fun halfValid :: "jsdate \<Rightarrow> jsdate \<Rightarrow> bool" where
  "halfValid None (Some b) = True"
| "halfValid (Some a) None = True"
| "halfValid _ _ = False"

text \<open>The rows the detector compares dates with: active, of the queried resource and
  type, and not the excluded id.\<close>

definition candidateRow :: "int \<Rightarrow> string \<Rightarrow> int \<Rightarrow> row \<Rightarrow> bool" where
  "candidateRow rid ty excludeId r =
     (active r \<and> resourceId r = rid \<and> expectationType r = ty \<and> expId r \<noteq> excludeId)"

text \<open>Two rows are in conflict when both are active, they have the same resource id and
  expectation type, and their date ranges intersect.\<close>

definition conflicting :: "row \<Rightarrow> row \<Rightarrow> bool" where
  "conflicting r1 r2 =
     (active r1 \<and> active r2 \<and> resourceId r1 = resourceId r2 \<and>
      expectationType r1 = expectationType r2 \<and>
      intersects (startDate r1) (endDate r1) (startDate r2) (endDate r2))"

text \<open>The invariant of the data model: no two rows of the sheet are in conflict.\<close>

fun no_overlap :: "row list \<Rightarrow> bool" where
  "no_overlap [] = True"
| "no_overlap (r # rs) = (list_all (\<lambda>x. \<not> conflicting r x) rs \<and> no_overlap rs)"

text \<open>The cells of a row that decide a conflict.\<close>

definition ckey :: "row \<Rightarrow> bool \<times> int \<times> string \<times> jsdate \<times> jsdate" where
  "ckey r = (active r, resourceId r, expectationType r, startDate r, endDate r)"

text \<open>
  The contract of the overlap detector in the words of the specification: the id of the
  first row, in storage order, that is active, has the given resource id and expectation
  type, has an id other than the excluded one, and whose date range intersects the queried
  range; -1 when there is none.
\<close>

definition findConflict ::
  "row list \<Rightarrow> int \<Rightarrow> string \<Rightarrow> jsdate \<Rightarrow> jsdate \<Rightarrow> int \<Rightarrow> int" where
  "findConflict rows rid ty sd ed excludeId =
     (case find (\<lambda>r. active r \<and> resourceId r = rid \<and> expectationType r = ty \<and>
                      expId r \<noteq> excludeId \<and>
                      intersects sd ed (startDate r) (endDate r)) rows of
        None \<Rightarrow> -1
      | Some r \<Rightarrow> expId r)"

text \<open>
  The acceptance condition of the validator in the words of the specification, with the
  two bounds read as calendar days: the day of an instant, in a zone whose local time is
  UTC plus \<open>off\<close> milliseconds, and the condition that the start date is a day from
  1990-01-01 on and the end date a day up to 3000-12-31.
\<close>

definition calendarDay :: "int \<Rightarrow> int \<Rightarrow> int" where
  "calendarDay off t = (t + off) div msPerDay"

definition withinWindow :: "int \<Rightarrow> expectation \<Rightarrow> bool" where
  "withinWindow off e =
     (typeof (performance e) = ''number'' \<and> ge0 (performance e) \<and>
      typeof (oneToOne e) = ''number'' \<and> ge0 (oneToOne e) \<and>
      typeof (sideBySide e) = ''number'' \<and> ge0 (sideBySide e) \<and>
      (case startDate e of None \<Rightarrow> False | Some s \<Rightarrow> day_1990 \<le> calendarDay off s) \<and>
      (case endDate e of None \<Rightarrow> False | Some t \<Rightarrow> calendarDay off t \<le> day_3000) \<and>
      date_ge (endDate e) (startDate e))"

section \<open>Sample data\<close>

text \<open>
  The sample dates are given as day numbers and stand for midnight UTC of that day:
  2024-01-01 is day 19723, 2024-06-30 is 19904, 2024-07-01 is 19905, 2024-12-31 is 20088.
  The sample environment is a script in the zone UTC. For a number in exponent notation
  it lets \<^verbatim>\<open>parseInt\<close> read the leading decimal digit with the sign; 10^21 prints as
  \<^verbatim>\<open>1e+21\<close>, of which \<^verbatim>\<open>parseInt\<close> reads 1.
\<close>

function leadingDigit :: "int \<Rightarrow> int" where
  "leadingDigit n = (if n < 10 then n else leadingDigit (n div 10))"
  by pat_completeness auto
termination
  by (relation "measure nat") auto

definition signedLeadingDigit :: "int \<Rightarrow> int" where
  "signedLeadingDigit n = (if n < 0 then - leadingDigit (- n) else leadingDigit n)"

definition sampleEnv :: env where
  "sampleEnv = \<lparr>coachingSheet = True, userEmID = Some 7, today = ''2024-01-15'',
                utcOffset1990 = 0, utcOffset3000 = 0, parseIntExp = signedLeadingDigit\<rparr>"

definition mkExpectation :: "int \<Rightarrow> jsval \<Rightarrow> int \<Rightarrow> int \<Rightarrow> bool \<Rightarrow> expectation" where
  "mkExpectation rid perf sd ed act =
     \<lparr>resourceId = rid, performance = perf, oneToOne = JNum 1, sideBySide = JNum 0,
      startDate = Some (sd * msPerDay), endDate = Some (ed * msPerDay),
      expectationType = ''Agent'', active = act\<rparr>"

definition mkRow :: "int \<Rightarrow> int \<Rightarrow> int \<Rightarrow> int \<Rightarrow> bool \<Rightarrow> row" where
  "mkRow i rid sd ed act =
     \<lparr>resourceId = rid, performance = JNum 0, oneToOne = JNum 1, sideBySide = JNum 0,
      startDate = Some (sd * msPerDay), endDate = Some (ed * msPerDay),
      expectationType = ''Agent'', active = act,
      expId = i, createdBy = Some 7, createdDate = Some ''2024-01-01'',
      modifiedBy = None, modifiedDate = None\<rparr>"

section \<open>Numbers\<close>

declare binadeUlp.simps [simp del]

declare leadingDigit.simps [simp del]

lemma binadeUlp_small: "n < 2 ^ 53 \<Longrightarrow> binadeUlp n = 1"
  by (subst binadeUlp.simps) simp

lemma binadeUlp_2_53: "binadeUlp (2 ^ 53) = 2"
  by (subst binadeUlp.simps) (simp add: binadeUlp_small)

lemma dblRound_exact:
  assumes lo: "- (2 ^ 53) \<le> n" and hi: "n \<le> 2 ^ 53"
  shows "dblRound n = n"
proof (cases "\<bar>n\<bar> < 2 ^ 53")
  case True
  then show ?thesis by (simp add: dblRound_def binadeUlp_small)
next
  case False
  with lo hi have "\<bar>n\<bar> = 2 ^ 53" by linarith
  then have u: "binadeUlp \<bar>n\<bar> = 2" by (simp only: binadeUlp_2_53)
  from \<open>\<bar>n\<bar> = 2 ^ 53\<close> have "n = 2 ^ 53 \<or> n = - (2 ^ 53)" by linarith
  then have m: "n mod 2 = 0" by auto
  then have "n div 2 * 2 = n" by presburger
  then show ?thesis using m by (simp add: dblRound_def u)
qed

lemma parseInt_small: "\<bar>n\<bar> < 10 ^ 21 \<Longrightarrow> parseInt ev n = n"
  by (simp add: parseInt_def)

lemma parseInt_default: "parseInt ev (-1) = -1"
  by (simp add: parseInt_def)

section \<open>Validator: exact acceptance condition\<close>

lemma typeof_number_ge0:
  "(typeof v = ''number'' \<and> ge0 v) = ((\<exists>n. v = JNum n \<and> 0 \<le> n) \<or> v = JInfinity)"
  by (cases v) auto

lemma date_ge_Some: "date_ge d (Some b) = (\<exists>a. d = Some a \<and> b \<le> a)"
  by (cases d) auto

lemma date_le_Some: "date_le d (Some b) = (\<exists>a. d = Some a \<and> a \<le> b)"
  by (cases d) auto

lemma date_ge_both: "date_ge x y = (\<exists>a b. x = Some a \<and> y = Some b \<and> b \<le> a)"
  by (cases x; cases y) auto

lemma validateExpectation_error:
  "validateExpectation ev e = Inl x \<Longrightarrow> x = ValidationFailed"
  by (simp add: validateExpectation_def split: if_splits)

text \<open>
  C3, as amended. \<^verbatim>\<open>validateExpectation\<close> succeeds exactly when the three cadence counts
  are numbers that are at least 0 (\<^verbatim>\<open>Infinity\<close> among them), the start date parses to an
  instant not before local midnight at the start of 1990-01-01, the end date parses to an
  instant not after local midnight at the start of 3000-12-31, and the end date is not
  before the start date. In every other case it fails with the validation error. The
  validator is a function of the candidate and the time zone alone: it neither reads nor
  writes the sheet.
\<close>

theorem validateExpectation_exact:
  "(validateExpectation ev e = Inr ()) =
     (((\<exists>p. performance e = JNum p \<and> 0 \<le> p) \<or> performance e = JInfinity) \<and>
      ((\<exists>q. oneToOne e = JNum q \<and> 0 \<le> q) \<or> oneToOne e = JInfinity) \<and>
      ((\<exists>s. sideBySide e = JNum s \<and> 0 \<le> s) \<or> sideBySide e = JInfinity) \<and>
      (\<exists>a. startDate e = Some a \<and> localMidnight (utcOffset1990 ev) day_1990 \<le> a) \<and>
      (\<exists>b. endDate e = Some b \<and> b \<le> localMidnight (utcOffset3000 ev) day_3000) \<and>
      (\<exists>a b. startDate e = Some a \<and> endDate e = Some b \<and> a \<le> b))
   \<and> (validateExpectation ev e = Inr () \<or> validateExpectation ev e = Inl ValidationFailed)"
proof -
  have acc: "(validateExpectation ev e = Inr ()) =
      ((typeof (performance e) = ''number'' \<and> ge0 (performance e)) \<and>
       (typeof (oneToOne e) = ''number'' \<and> ge0 (oneToOne e)) \<and>
       (typeof (sideBySide e) = ''number'' \<and> ge0 (sideBySide e)) \<and>
       date_ge (startDate e) (Some (localMidnight (utcOffset1990 ev) day_1990)) \<and>
       date_le (endDate e) (Some (localMidnight (utcOffset3000 ev) day_3000)) \<and>
       date_ge (endDate e) (startDate e))"
    unfolding validateExpectation_def by (simp only: conj_assoc if_split) simp
  have rng: "date_ge (endDate e) (startDate e) =
      (\<exists>a b. startDate e = Some a \<and> endDate e = Some b \<and> a \<le> b)"
    unfolding date_ge_both by blast
  have two: "validateExpectation ev e = Inr () \<or> validateExpectation ev e = Inl ValidationFailed"
    unfolding validateExpectation_def by simp
  show ?thesis
    unfolding acc typeof_number_ge0 date_ge_Some date_le_Some rng using two
    by (simp add: acc typeof_number_ge0 date_ge_Some date_le_Some rng)
qed

text \<open>
  Two candidates for resource 42 over 2024-01-01 to 2024-06-30, in a script running in
  UTC: with a performance count of 0 the validator accepts, with a performance count of -1
  it rejects.
\<close>

theorem validateExpectation_exact_witness:
  "validateExpectation sampleEnv (mkExpectation 42 (JNum 0) 19723 19904 True) = Inr ()
   \<and> validateExpectation sampleEnv (mkExpectation 42 (JNum (-1)) 19723 19904 True)
       = Inl ValidationFailed"
proof -
  have good: "validateExpectation sampleEnv (mkExpectation 42 (JNum 0) 19723 19904 True) = Inr ()"
    using validateExpectation_exact [of sampleEnv "mkExpectation 42 (JNum 0) 19723 19904 True"]
    by (simp add: mkExpectation_def sampleEnv_def localMidnight_def msPerDay_def
          day_1990_def day_3000_def)
  have "validateExpectation sampleEnv (mkExpectation 42 (JNum (-1)) 19723 19904 True) \<noteq> Inr ()"
    using validateExpectation_exact [of sampleEnv "mkExpectation 42 (JNum (-1)) 19723 19904 True"]
    by (simp add: mkExpectation_def)
  then have bad:
    "validateExpectation sampleEnv (mkExpectation 42 (JNum (-1)) 19723 19904 True)
       = Inl ValidationFailed"
    using validateExpectation_exact [of sampleEnv "mkExpectation 42 (JNum (-1)) 19723 19904 True"]
    by blast
  show ?thesis using good bad by simp
qed

text \<open>
  Read as calendar days the two bounds admit more than the code does. In a script running
  in UTC a candidate from 2024-01-01 whose end date is noon of 3000-12-31 (the instant
  32535172800000) ends on a day up to 3000-12-31, and the validator rejects it, because
  that instant lies after midnight at the start of the day.
\<close>

theorem validateExpectation_rejects_last_day:
  "withinWindow 0
     \<lparr>resourceId = 42, performance = JNum 0, oneToOne = JNum 1, sideBySide = JNum 0,
      startDate = Some 1704067200000, endDate = Some 32535172800000,
      expectationType = ''Agent'', active = True\<rparr>
   \<and> validateExpectation sampleEnv
     \<lparr>resourceId = 42, performance = JNum 0, oneToOne = JNum 1, sideBySide = JNum 0,
      startDate = Some 1704067200000, endDate = Some 32535172800000,
      expectationType = ''Agent'', active = True\<rparr> = Inl ValidationFailed"
  by code_simp

section \<open>Date ranges\<close>

text \<open>The definition of \<open>intersects\<close> says that the two ranges share an instant.\<close>

lemma intersects_shared_instant:
  "intersects (Some a) (Some b) (Some c) (Some d) = (\<exists>t. a \<le> t \<and> t \<le> b \<and> c \<le> t \<and> t \<le> d)"
proof
  assume "intersects (Some a) (Some b) (Some c) (Some d)"
  then have "a \<le> max a c \<and> max a c \<le> b \<and> c \<le> max a c \<and> max a c \<le> d" by simp
  then show "\<exists>t. a \<le> t \<and> t \<le> b \<and> c \<le> t \<and> t \<le> d" by blast
next
  assume "\<exists>t. a \<le> t \<and> t \<le> b \<and> c \<le> t \<and> t \<le> d"
  then show "intersects (Some a) (Some b) (Some c) (Some d)" by auto
qed

lemma intersects_sym: "intersects s1 e1 s2 e2 = intersects s2 e2 s1 e1"
  by (cases s1; cases e1; cases s2; cases e2) (auto simp: max.commute min.commute)

lemma intersects_overlapTest: "intersects sd ed s e \<Longrightarrow> overlapTest sd ed s e"
  by (cases sd; cases ed; cases s; cases e) (auto simp: overlapTest_def)

lemma overlapTest_intersects:
  "\<not> reversed sd ed \<Longrightarrow> \<not> halfValid sd ed \<Longrightarrow> \<not> reversed s e \<Longrightarrow>
   overlapTest sd ed s e = intersects sd ed s e"
  by (cases sd; cases ed; cases s; cases e) (auto simp: overlapTest_def)

section \<open>The row scan\<close>

lemma findIndex_lower: "-1 \<le> findIndex P xs"
  by (induction xs) (auto simp: Let_def)

lemma findIndex_none: "(findIndex P xs = -1) = (\<forall>x\<in>set xs. \<not> P x)"
proof (induction xs)
  case Nil
  show ?case by simp
next
  case (Cons x xs)
  have "-1 \<le> findIndex P xs" by (rule findIndex_lower)
  with Cons show ?case by (auto simp: Let_def)
qed

lemma findIndex_found:
  "findIndex P xs \<noteq> -1 \<Longrightarrow>
     0 \<le> findIndex P xs \<and> nat (findIndex P xs) < length xs \<and> P (xs ! nat (findIndex P xs))"
proof (induction xs)
  case Nil
  then show ?case by simp
next
  case (Cons x xs)
  show ?case
  proof (cases "P x")
    case True
    then show ?thesis by simp
  next
    case False
    with Cons.prems have ne: "findIndex P xs \<noteq> -1" by (auto simp: Let_def split: if_splits)
    from Cons.IH [OF ne] have ih: "0 \<le> findIndex P xs" "nat (findIndex P xs) < length xs"
      "P (xs ! nat (findIndex P xs))" by auto
    have eq: "findIndex P (x # xs) = findIndex P xs + 1" using False ne by (simp add: Let_def)
    have "nat (findIndex P xs + 1) = Suc (nat (findIndex P xs))" using ih(1) by simp
    then show ?thesis using ih eq by simp
  qed
qed

lemma scanRows_none:
  "scanRows rs rid ty sd ed ign = -1 \<Longrightarrow> \<forall>x\<in>set rs. expId x \<noteq> -1 \<Longrightarrow> r \<in> set rs \<Longrightarrow>
   active r \<Longrightarrow> resourceId r = rid \<Longrightarrow> expectationType r = ty \<Longrightarrow> expId r \<noteq> ign \<Longrightarrow>
   \<not> overlapTest sd ed (startDate r) (endDate r)"
  by (induction rs) (auto split: if_splits)

lemma scanRows_no_match:
  "\<forall>r\<in>set rs. \<not> (active r \<and> resourceId r = rid \<and> expectationType r = ty \<and>
       expId r \<noteq> ign \<and> overlapTest sd ed (startDate r) (endDate r)) \<Longrightarrow>
   scanRows rs rid ty sd ed ign = -1"
  by (induction rs) auto

lemma scanRows_findConflict:
  "\<not> reversed sd ed \<Longrightarrow> \<not> halfValid sd ed \<Longrightarrow>
   \<forall>r\<in>set rs. candidateRow rid ty ex r \<longrightarrow> \<not> reversed (startDate r) (endDate r) \<Longrightarrow>
   scanRows rs rid ty sd ed ex = findConflict rs rid ty sd ed ex"
  by (induction rs) (auto simp: findConflict_def candidateRow_def overlapTest_intersects)

text \<open>For every query on a sheet with data rows the detector returns the id of the first
  row that passes its own tests, the three-way date test among them.\<close>

lemma checkForOverlap_three_way:
  assumes "sheet \<noteq> []" and "\<bar>excludeId\<bar> < 10 ^ 21"
  shows "checkForOverlap ev sheet rid ty sd ed excludeId =
     Inr (case find (\<lambda>r. candidateRow rid ty excludeId r \<and>
                          overlapTest sd ed (startDate r) (endDate r)) sheet of
            None \<Rightarrow> -1 | Some r \<Rightarrow> expId r)"
proof -
  have "scanRows rs rid ty sd ed excludeId =
     (case find (\<lambda>r. candidateRow rid ty excludeId r \<and>
                      overlapTest sd ed (startDate r) (endDate r)) rs of
        None \<Rightarrow> -1 | Some r \<Rightarrow> expId r)" for rs
    by (induction rs) (auto simp: candidateRow_def)
  then show ?thesis using assms
    by (simp add: checkForOverlap_def getRange3_def parseInt_small)
qed

text \<open>
  C4, as amended. Date ranges are ranges of instants. For every sheet with at least one
  data row, every excluded id below 10^21 in magnitude, and every query whose range is
  neither reversed nor half-valid, provided no active row of the queried resource and type
  with another id has a reversed range, \<^verbatim>\<open>checkForOverlap\<close> returns the id of the first row
  in storage order that is active, has the queried resource id and expectation type, has an
  id other than the excluded one, and whose inclusive date range intersects the queried
  one; it returns -1 when there is no such row.
\<close>

theorem checkForOverlap_first_conflict:
  assumes "sheet \<noteq> []" and "\<bar>excludeId\<bar> < 10 ^ 21"
    and "\<not> reversed sd ed" and "\<not> halfValid sd ed"
    and "\<forall>r\<in>set sheet. candidateRow rid ty excludeId r \<longrightarrow>
           \<not> reversed (startDate r) (endDate r)"
  shows "checkForOverlap ev sheet rid ty sd ed excludeId =
           Inr (findConflict sheet rid ty sd ed excludeId)"
  using assms
  by (simp add: checkForOverlap_def getRange3_def parseInt_small scanRows_findConflict)

text \<open>
  Row 1 runs from 2024-01-01 to 2024-06-30, row 2 from 2024-03-18 to 2024-12-31, both
  active. A query from 2024-06-30 to 2024-12-31 shares its first instant with row 1, which
  is reported; with row 1 excluded, row 2 is reported.
\<close>

theorem checkForOverlap_first_conflict_witness:
  "[mkRow 1 42 19723 19904 True, mkRow 2 42 19800 20088 True] \<noteq> []
   \<and> \<bar>1\<bar> < (10::int) ^ 21
   \<and> \<not> reversed (Some (19904 * msPerDay)) (Some (20088 * msPerDay))
   \<and> \<not> halfValid (Some (19904 * msPerDay)) (Some (20088 * msPerDay))
   \<and> list_all (\<lambda>r. \<not> (candidateRow 42 ''Agent'' 1 r \<and> reversed (startDate r) (endDate r)))
         [mkRow 1 42 19723 19904 True, mkRow 2 42 19800 20088 True]
   \<and> checkForOverlap sampleEnv [mkRow 1 42 19723 19904 True, mkRow 2 42 19800 20088 True]
        42 ''Agent'' (Some (19904 * msPerDay)) (Some (20088 * msPerDay)) (-1) = Inr 1
   \<and> checkForOverlap sampleEnv [mkRow 1 42 19723 19904 True, mkRow 2 42 19800 20088 True]
        42 ''Agent'' (Some (19904 * msPerDay)) (Some (20088 * msPerDay)) 1 = Inr 2"
proof -
  let ?s = "[mkRow 1 42 19723 19904 True, mkRow 2 42 19800 20088 True]"
  let ?sd = "Some (19904 * msPerDay)"
  let ?ed = "Some (20088 * msPerDay)"
  have h1: "?s \<noteq> []" by simp
  have h2: "\<bar>1\<bar> < (10::int) ^ 21" by simp
  have h2': "\<bar>-1\<bar> < (10::int) ^ 21" by simp
  have h3: "\<not> reversed ?sd ?ed" by (simp add: msPerDay_def)
  have h4: "\<not> halfValid ?sd ?ed" by simp
  have h5l: "list_all (\<lambda>r. \<not> (candidateRow 42 ''Agent'' 1 r \<and> reversed (startDate r) (endDate r))) ?s"
    by code_simp
  have h5l': "list_all (\<lambda>r. \<not> (candidateRow 42 ''Agent'' (-1) r \<and> reversed (startDate r) (endDate r))) ?s"
    by code_simp
  have h5: "\<forall>r\<in>set ?s. candidateRow 42 ''Agent'' 1 r \<longrightarrow> \<not> reversed (startDate r) (endDate r)"
    using h5l by (simp only: list_all_iff) blast
  have h5': "\<forall>r\<in>set ?s. candidateRow 42 ''Agent'' (-1) r \<longrightarrow> \<not> reversed (startDate r) (endDate r)"
    using h5l' by (simp only: list_all_iff) blast
  have f1: "findConflict ?s 42 ''Agent'' ?sd ?ed (-1) = 1" by code_simp
  have f2: "findConflict ?s 42 ''Agent'' ?sd ?ed 1 = 2" by code_simp
  have c1: "checkForOverlap sampleEnv ?s 42 ''Agent'' ?sd ?ed (-1) = Inr 1"
    using checkForOverlap_first_conflict [OF h1 h2' h3 h4 h5', of sampleEnv] f1
    by (simp only:)
  have c2: "checkForOverlap sampleEnv ?s 42 ''Agent'' ?sd ?ed 1 = Inr 2"
    using checkForOverlap_first_conflict [OF h1 h2 h3 h4 h5, of sampleEnv] f2
    by (simp only:)
  show ?thesis
    using h1 h2 h3 h4 h5l c1 c2 by blast
qed

text \<open>
  Each of the conditions is needed; the sheet below holds the active row 1 for resource 42
  from 2024-01-01 to 2024-06-30. On a sheet with no data row the detector throws instead
  of returning -1. For a query whose end date 2024-01-01 lies before its start date
  2024-12-31 no instant lies in the queried range, yet row 1 is reported, because the end
  date alone falls within its range. The same happens for a query with an Invalid start
  date and the end date 2024-01-01. A row that runs backwards, from 2024-06-30 to
  2024-01-01, holds no instant, yet it is reported for a query over the whole year. And
  with the excluded id 10^21, of which \<^verbatim>\<open>parseInt\<close> reads 1, row 1 is left out of the scan
  although its id is not the excluded one.
\<close>

theorem checkForOverlap_not_findConflict:
  "checkForOverlap sampleEnv [] 42 ''Agent'' (Some (19723 * msPerDay)) (Some (19904 * msPerDay)) (-1)
     \<noteq> Inr (findConflict [] 42 ''Agent'' (Some (19723 * msPerDay)) (Some (19904 * msPerDay)) (-1))
   \<and> checkForOverlap sampleEnv [mkRow 1 42 19723 19904 True] 42 ''Agent''
        (Some (20088 * msPerDay)) (Some (19723 * msPerDay)) (-1)
     \<noteq> Inr (findConflict [mkRow 1 42 19723 19904 True] 42 ''Agent''
               (Some (20088 * msPerDay)) (Some (19723 * msPerDay)) (-1))
   \<and> checkForOverlap sampleEnv [mkRow 1 42 19723 19904 True] 42 ''Agent''
        None (Some (19723 * msPerDay)) (-1)
     \<noteq> Inr (findConflict [mkRow 1 42 19723 19904 True] 42 ''Agent''
               None (Some (19723 * msPerDay)) (-1))
   \<and> checkForOverlap sampleEnv [mkRow 1 42 19904 19723 True] 42 ''Agent''
        (Some (19723 * msPerDay)) (Some (20088 * msPerDay)) (-1)
     \<noteq> Inr (findConflict [mkRow 1 42 19904 19723 True] 42 ''Agent''
               (Some (19723 * msPerDay)) (Some (20088 * msPerDay)) (-1))
   \<and> checkForOverlap sampleEnv [mkRow 1 42 19723 19904 True] 42 ''Agent''
        (Some (19723 * msPerDay)) (Some (19904 * msPerDay)) (10 ^ 21)
     \<noteq> Inr (findConflict [mkRow 1 42 19723 19904 True] 42 ''Agent''
               (Some (19723 * msPerDay)) (Some (19904 * msPerDay)) (10 ^ 21))"
  by code_simp

section \<open>The invariant\<close>

lemma conflicting_sym: "conflicting a b = conflicting b a"
  unfolding conflicting_def using intersects_sym [of "startDate a" "endDate a" "startDate b" "endDate b"]
  by auto

lemma conflicting_ckey:
  "ckey a = ckey a' \<Longrightarrow> ckey b = ckey b' \<Longrightarrow> conflicting a b = conflicting a' b'"
  by (simp add: ckey_def conflicting_def)

lemma no_overlap_nth:
  "no_overlap rs = (\<forall>i<length rs. \<forall>j<length rs. i \<noteq> j \<longrightarrow> \<not> conflicting (rs ! i) (rs ! j))"
proof (induction rs)
  case Nil
  show ?case by simp
next
  case (Cons r rs)
  show ?case
  proof
    assume L: "no_overlap (r # rs)"
    then have hd: "\<forall>x\<in>set rs. \<not> conflicting r x" and tl: "no_overlap rs"
      by (auto simp: list_all_iff)
    show "\<forall>i<length (r # rs). \<forall>j<length (r # rs). i \<noteq> j \<longrightarrow> \<not> conflicting ((r # rs) ! i) ((r # rs) ! j)"
    proof (intro allI impI)
      fix i j assume i: "i < length (r # rs)" and j: "j < length (r # rs)" and ne: "i \<noteq> j"
      show "\<not> conflicting ((r # rs) ! i) ((r # rs) ! j)"
      proof (cases i)
        case 0
        then obtain j' where "j = Suc j'" using ne by (cases j) auto
        then show ?thesis using 0 hd j by simp
      next
        case (Suc i')
        show ?thesis
        proof (cases j)
          case 0
          then show ?thesis using Suc hd i conflicting_sym [of "rs ! i'" r] by simp
        next
          case (Suc j')
          then show ?thesis using \<open>i = Suc i'\<close> tl Cons.IH i j ne by simp
        qed
      qed
    qed
  next
    assume R: "\<forall>i<length (r # rs). \<forall>j<length (r # rs). i \<noteq> j \<longrightarrow> \<not> conflicting ((r # rs) ! i) ((r # rs) ! j)"
    have hd: "\<forall>x\<in>set rs. \<not> conflicting r x"
    proof
      fix x assume "x \<in> set rs"
      then obtain k where k: "k < length rs" "rs ! k = x" by (auto simp: in_set_conv_nth)
      from R [rule_format, of 0 "Suc k"] k show "\<not> conflicting r x" by simp
    qed
    have tl: "no_overlap rs"
      unfolding Cons.IH
    proof (intro allI impI)
      fix i j assume "i < length rs" "j < length rs" "i \<noteq> j"
      with R [rule_format, of "Suc i" "Suc j"] show "\<not> conflicting (rs ! i) (rs ! j)" by simp
    qed
    show "no_overlap (r # rs)" using hd tl by (simp add: list_all_iff)
  qed
qed

lemma no_overlap_ckey:
  assumes "map ckey rs = map ckey rs'"
  shows "no_overlap rs = no_overlap rs'"
proof -
  have len: "length rs = length rs'" using assms by (metis length_map)
  have key: "\<And>i. i < length rs \<Longrightarrow> ckey (rs ! i) = ckey (rs' ! i)"
    using assms len by (metis nth_map)
  have "\<And>i j. i < length rs \<Longrightarrow> j < length rs \<Longrightarrow>
           conflicting (rs ! i) (rs ! j) = conflicting (rs' ! i) (rs' ! j)"
    by (rule conflicting_ckey) (simp_all add: key)
  then show ?thesis
    unfolding no_overlap_nth len [symmetric] by simp
qed

lemma ckey_writeCell: "col \<noteq> 9 \<Longrightarrow> ckey (writeCell r col v) = ckey r"
  by (cases v) (simp_all add: writeCell_def ckey_def)

lemma map_ckey_setValue: "col \<noteq> 9 \<Longrightarrow> map ckey (setValue sheet rowN col v) = map ckey sheet"
  by (auto simp: setValue_def ckey_writeCell list_eq_iff_nth_eq nth_list_update)

lemma map_ckey_updateModifiedBy:
  "emc \<noteq> 9 \<Longrightarrow> dc \<noteq> 9 \<Longrightarrow> map ckey (updateModifiedBy ev sheet rowN emc dc) = map ckey sheet"
  by (simp add: updateModifiedBy_def map_ckey_setValue split: option.splits)

lemma no_overlap_updateModifiedBy:
  "emc \<noteq> 9 \<Longrightarrow> dc \<noteq> 9 \<Longrightarrow> no_overlap (updateModifiedBy ev sheet rowN emc dc) = no_overlap sheet"
  by (rule no_overlap_ckey) (rule map_ckey_updateModifiedBy)

lemma no_overlap_append1:
  "no_overlap (rs @ [r]) = (no_overlap rs \<and> (\<forall>x\<in>set rs. \<not> conflicting x r))"
  by (induction rs) (auto simp: list_all_iff)

lemma no_overlap_list_update:
  assumes inv: "no_overlap rs" and k: "k < length rs"
    and new: "\<And>j. j < length rs \<Longrightarrow> j \<noteq> k \<Longrightarrow> \<not> conflicting r' (rs ! j)"
  shows "no_overlap (rs[k := r'])"
  unfolding no_overlap_nth
proof (intro allI impI)
  fix i j assume i: "i < length (rs[k := r'])" and j: "j < length (rs[k := r'])" and ne: "i \<noteq> j"
  from i j have i': "i < length rs" and j': "j < length rs" by simp_all
  show "\<not> conflicting (rs[k := r'] ! i) (rs[k := r'] ! j)"
  proof (cases "i = k")
    case True
    then have "j \<noteq> k" using ne by simp
    then show ?thesis using True k new [OF j'] by simp
  next
    case False
    show ?thesis
    proof (cases "j = k")
      case True
      then show ?thesis using False k new [OF i' False] conflicting_sym [of "rs ! i" r'] by simp
    next
      case jk: False
      then show ?thesis using False inv i' j' ne unfolding no_overlap_nth by simp
    qed
  qed
qed

lemma expId_writeCell: "expId (writeCell r col v) = expId r"
  by (cases v) (simp_all add: writeCell_def)

lemma map_expId_setValue: "map expId (setValue sheet rowN col v) = map expId sheet"
  by (auto simp: setValue_def expId_writeCell list_eq_iff_nth_eq nth_list_update)

lemma map_expId_updateModifiedBy:
  "map expId (updateModifiedBy ev sheet rowN emc dc) = map expId sheet"
  by (simp add: updateModifiedBy_def map_expId_setValue split: option.splits)

section \<open>What a successful operation has done\<close>

lemma math_max_Max: "xs \<noteq> [] \<Longrightarrow> math_max xs = Some (Max (set xs))"
proof (induction xs)
  case Nil
  then show ?case by simp
next
  case (Cons x xs)
  show ?case
  proof (cases "xs = []")
    case True
    then show ?thesis by simp
  next
    case False
    with Cons.IH have "math_max xs = Some (Max (set xs))" by simp
    then show ?thesis using False by simp
  qed
qed

lemma add_success:
  assumes "fst (addNewExpectation ev e sheet) = Inr n"
  shows "coachingSheet ev \<and> sheet \<noteq> [] \<and>
     scanRows sheet (resourceId e) (expectationType e) (startDate e) (endDate e) (-1) = -1 \<and>
     (\<exists>m. math_max (map expId sheet) = Some m \<and> n = dblRound (m + 1)) \<and>
     snd (addNewExpectation ev e sheet) =
       updateModifiedBy ev (appendRow sheet n e) (getLastRow (appendRow sheet n e)) 10 11"
  using assms
  by (auto simp: addNewExpectation_def checkForOverlap_def getRange3_def Let_def
           parseInt_default split: if_splits sum.splits option.splits)

lemma update_success:
  assumes "fst (updateExpectationData ev i e sheet) = Inr ()"
  shows "coachingSheet ev \<and> sheet \<noteq> [] \<and> validateExpectation ev e = Inr () \<and>
     findIndex (\<lambda>r. expId r = i) sheet \<noteq> -1 \<and>
     scanRows sheet (resourceId e) (expectationType e) (startDate e) (endDate e)
       (parseInt ev i) = -1 \<and>
     snd (updateExpectationData ev i e sheet) =
       updateModifiedBy ev (setValues sheet (findIndex (\<lambda>r. expId r = i) sheet + 3) e)
         (findIndex (\<lambda>r. expId r = i) sheet + 3) 12 13"
  using assms findIndex_lower [of "\<lambda>r. expId r = i" sheet]
  by (auto simp: updateExpectationData_def checkForOverlap_def getRange3_def Let_def
           split: if_splits sum.splits)

lemma status_success:
  assumes "fst (setExpectationStatus ev i b sheet) = Inr ()"
  shows "coachingSheet ev \<and> sheet \<noteq> [] \<and>
     findIndex (\<lambda>r. expId r = i) sheet \<noteq> -1 \<and>
     statusOverlapCheck ev sheet (findIndex (\<lambda>r. expId r = i) sheet + 3) b = Inr (-1) \<and>
     snd (setExpectationStatus ev i b sheet) =
       updateModifiedBy ev (setValue sheet (findIndex (\<lambda>r. expId r = i) sheet + 3) 9 (CBool b))
         (findIndex (\<lambda>r. expId r = i) sheet + 3) 12 13"
  using assms findIndex_lower [of "\<lambda>r. expId r = i" sheet]
  by (auto simp: setExpectationStatus_def getRange3_def Let_def
           split: if_splits sum.splits)

lemma add_ids:
  assumes ok: "fst (addNewExpectation ev e sheet) = Inr n"
  shows "map expId (snd (addNewExpectation ev e sheet)) = map expId sheet @ [n]"
  using add_success [OF ok] by (simp add: map_expId_updateModifiedBy appendRow_def)

lemma add_newId:
  assumes ok: "fst (addNewExpectation ev e sheet) = Inr n"
  shows "sheet \<noteq> [] \<and> n = dblRound (Max (set (map expId sheet)) + 1)"
proof -
  from add_success [OF ok] obtain m where ne: "sheet \<noteq> []"
    and mm: "math_max (map expId sheet) = Some m" and n: "n = dblRound (m + 1)" by blast
  from ne have "math_max (map expId sheet) = Some (Max (set (map expId sheet)))"
    by (intro math_max_Max) simp
  with mm have "m = Max (set (map expId sheet))" by simp
  then show ?thesis using ne n by simp
qed

lemma add_empty: "\<exists>err. addNewExpectation ev e [] = (Inl err, [])"
  by (simp add: addNewExpectation_def checkForOverlap_def getRange3_def)

section \<open>The operations keep the invariant\<close>

lemma add_keeps_no_overlap:
  assumes inv: "no_overlap sheet" and ids: "\<forall>x\<in>set sheet. expId x \<noteq> -1"
    and ok: "fst (addNewExpectation ev e sheet) = Inr n"
  shows "no_overlap (snd (addNewExpectation ev e sheet))"
proof -
  from add_success [OF ok] have
    scan: "scanRows sheet (resourceId e) (expectationType e) (startDate e) (endDate e) (-1) = -1"
    and res: "snd (addNewExpectation ev e sheet) =
       updateModifiedBy ev (appendRow sheet n e) (getLastRow (appendRow sheet n e)) 10 11"
    by simp_all
  have "\<not> conflicting x (last (appendRow sheet n e))" if x: "x \<in> set sheet" for x
  proof
    assume c: "conflicting x (last (appendRow sheet n e))"
    then have a: "active x" "resourceId x = resourceId e" "expectationType x = expectationType e"
      and i: "intersects (startDate x) (endDate x) (startDate e) (endDate e)"
      by (simp_all add: conflicting_def appendRow_def)
    from i have "overlapTest (startDate e) (endDate e) (startDate x) (endDate x)"
      using intersects_sym intersects_overlapTest by blast
    moreover have "\<not> overlapTest (startDate e) (endDate e) (startDate x) (endDate x)"
      using scanRows_none [OF scan ids x a] ids x by simp
    ultimately show False by simp
  qed
  then have "no_overlap (appendRow sheet n e)"
    using inv by (simp add: appendRow_def no_overlap_append1)
  then show ?thesis by (simp add: res no_overlap_updateModifiedBy)
qed

lemma distinct_other_ids:
  assumes d: "distinct (map expId sheet)" and k: "k < length sheet" and j: "j < length sheet"
    and ne: "j \<noteq> k"
  shows "expId (sheet ! j) \<noteq> expId (sheet ! k)"
  using nth_eq_iff_index_eq [OF d, of j k] k j ne by simp

lemma update_keeps_no_overlap:
  assumes inv: "no_overlap sheet" and ids: "\<forall>x\<in>set sheet. expId x \<noteq> -1"
    and d: "distinct (map expId sheet)"
    and small: "\<forall>x\<in>set sheet. \<bar>expId x\<bar> < 10 ^ 21"
    and ok: "fst (updateExpectationData ev i e sheet) = Inr ()"
  shows "no_overlap (snd (updateExpectationData ev i e sheet))"
proof -
  let ?f = "findIndex (\<lambda>r. expId r = i) sheet"
  let ?k = "nat ?f"
  from update_success [OF ok] have
    found: "?f \<noteq> -1"
    and scan0: "scanRows sheet (resourceId e) (expectationType e) (startDate e) (endDate e)
       (parseInt ev i) = -1"
    and res: "snd (updateExpectationData ev i e sheet) =
       updateModifiedBy ev (setValues sheet (?f + 3) e) (?f + 3) 12 13"
    by simp_all
  from findIndex_found [OF found] have f0: "0 \<le> ?f" and k: "?k < length sheet"
    and idk: "expId (sheet ! ?k) = i" by simp_all
  have "\<bar>expId (sheet ! ?k)\<bar> < 10 ^ 21" using small nth_mem [OF k] by (rule bspec)
  then have "\<bar>i\<bar> < 10 ^ 21" by (simp only: idk)
  then have scan:
    "scanRows sheet (resourceId e) (expectationType e) (startDate e) (endDate e) i = -1"
    using scan0 by (simp add: parseInt_small)
  let ?new = "(sheet ! ?k)
             \<lparr>resourceId := resourceId e, performance := performance e,
              oneToOne := oneToOne e, sideBySide := sideBySide e,
              startDate := startDate e, endDate := endDate e,
              expectationType := expectationType e, active := active e\<rparr>"
  have sv: "setValues sheet (?f + 3) e = sheet[?k := ?new]"
    using f0 k by (simp add: setValues_def)
  have "\<not> conflicting ?new (sheet ! j)" if j: "j < length sheet" and ne: "j \<noteq> ?k" for j
  proof
    assume c: "conflicting ?new (sheet ! j)"
    let ?x = "sheet ! j"
    have x: "?x \<in> set sheet" using j by simp
    from c have a: "active ?x" "resourceId ?x = resourceId e" "expectationType ?x = expectationType e"
      and i: "intersects (startDate e) (endDate e) (startDate ?x) (endDate ?x)"
      by (simp_all add: conflicting_def)
    have "expId ?x \<noteq> i" using distinct_other_ids [OF d k j ne] idk by simp
    then have "\<not> overlapTest (startDate e) (endDate e) (startDate ?x) (endDate ?x)"
      using scanRows_none [OF scan ids x a] by simp
    then show False using i intersects_overlapTest by blast
  qed
  then have "no_overlap (sheet[?k := ?new])"
    using inv k by (intro no_overlap_list_update) simp_all
  then show ?thesis by (simp add: res sv no_overlap_updateModifiedBy)
qed

lemma status_keeps_no_overlap:
  assumes inv: "no_overlap sheet" and ids: "\<forall>x\<in>set sheet. expId x \<noteq> -1"
    and ok: "fst (setExpectationStatus ev i b sheet) = Inr ()"
  shows "no_overlap (snd (setExpectationStatus ev i b sheet))"
proof -
  let ?f = "findIndex (\<lambda>r. expId r = i) sheet"
  let ?k = "nat ?f"
  from status_success [OF ok] have
    found: "?f \<noteq> -1"
    and chk: "statusOverlapCheck ev sheet (?f + 3) b = Inr (-1)"
    and res: "snd (setExpectationStatus ev i b sheet) =
       updateModifiedBy ev (setValue sheet (?f + 3) 9 (CBool b)) (?f + 3) 12 13"
    by simp_all
  from findIndex_found [OF found] have f0: "0 \<le> ?f" and k: "?k < length sheet" by simp_all
  let ?old = "sheet ! ?k"
  let ?new = "?old\<lparr>active := b\<rparr>"
  have sv: "setValue sheet (?f + 3) 9 (CBool b) = sheet[?k := ?new]"
    using f0 k by (simp add: setValue_def writeCell_def)
  have "\<not> conflicting ?new (sheet ! j)" if j: "j < length sheet" and ne: "j \<noteq> ?k" for j
  proof (cases b)
    case False
    then show ?thesis by (simp add: conflicting_def)
  next
    case True
    have ne0: "sheet \<noteq> []" using k by auto
    from chk True f0 k ne0 have scan:
      "scanRows sheet (resourceId ?old) (expectationType ?old) (startDate ?old) (endDate ?old) (-1) = -1"
      by (simp add: statusOverlapCheck_def checkForOverlap_def getRange3_def Let_def
            parseInt_default)
    show ?thesis
    proof
      assume c: "conflicting ?new (sheet ! j)"
      let ?x = "sheet ! j"
      have x: "?x \<in> set sheet" using j by simp
      from c have a: "active ?x" "resourceId ?x = resourceId ?old"
        "expectationType ?x = expectationType ?old"
        and i: "intersects (startDate ?old) (endDate ?old) (startDate ?x) (endDate ?x)"
        by (simp_all add: conflicting_def)
      have "expId ?x \<noteq> -1" using ids x by blast
      then have "\<not> overlapTest (startDate ?old) (endDate ?old) (startDate ?x) (endDate ?x)"
        using scanRows_none [OF scan ids x a] by simp
      then show False using i intersects_overlapTest by blast
    qed
  qed
  then have "no_overlap (sheet[?k := ?new])"
    using inv k by (intro no_overlap_list_update) simp_all
  then show ?thesis by (simp add: res sv no_overlap_updateModifiedBy)
qed

text \<open>
  C1, as amended. Date ranges are ranges of instants. For every sheet whose ids are
  pairwise distinct, never -1 (the value \<^verbatim>\<open>checkForOverlap\<close> uses both for "ignore no
  row" and for "no conflict") and below 10^21 in magnitude (where \<^verbatim>\<open>parseInt\<close> returns the
  id it is given), and in which no two active rows with the same resource id and
  expectation type have intersecting date ranges, every successful
  \<^verbatim>\<open>addNewExpectation\<close>, \<^verbatim>\<open>updateExpectationData\<close> and \<^verbatim>\<open>setExpectationStatus\<close> leaves a
  sheet in which again no two such rows intersect.
\<close>

theorem no_overlap_preserved:
  assumes "no_overlap sheet" and "distinct (map expId sheet)"
    and "\<forall>x\<in>set sheet. expId x \<noteq> -1" and "\<forall>x\<in>set sheet. \<bar>expId x\<bar> < 10 ^ 21"
  shows "(fst (addNewExpectation ev e sheet) = Inr n \<longrightarrow>
            no_overlap (snd (addNewExpectation ev e sheet)))
       \<and> (fst (updateExpectationData ev i e' sheet) = Inr () \<longrightarrow>
            no_overlap (snd (updateExpectationData ev i e' sheet)))
       \<and> (fst (setExpectationStatus ev j b sheet) = Inr () \<longrightarrow>
            no_overlap (snd (setExpectationStatus ev j b sheet)))"
  using assms add_keeps_no_overlap [of sheet ev e n]
    update_keeps_no_overlap [of sheet ev i e'] status_keeps_no_overlap [of sheet ev j b]
  by blast

text \<open>
  A sheet with an active row 1 for the first half of 2024 and an archived row 2 for the
  second half: adding an active expectation for the second half, widening row 1 to the whole
  year, and reactivating row 2 each succeed and leave no conflict.
\<close>

theorem no_overlap_preserved_witness:
  "no_overlap [mkRow 1 42 19723 19904 True, mkRow 2 42 19905 20088 False]
   \<and> distinct (map expId [mkRow 1 42 19723 19904 True, mkRow 2 42 19905 20088 False])
   \<and> list_all (\<lambda>x. expId x \<noteq> -1) [mkRow 1 42 19723 19904 True, mkRow 2 42 19905 20088 False]
   \<and> list_all (\<lambda>x. \<bar>expId x\<bar> < 10 ^ 21)
        [mkRow 1 42 19723 19904 True, mkRow 2 42 19905 20088 False]
   \<and> fst (addNewExpectation sampleEnv (mkExpectation 42 (JNum 0) 19905 20088 True)
        [mkRow 1 42 19723 19904 True, mkRow 2 42 19905 20088 False]) = Inr 3
   \<and> no_overlap (snd (addNewExpectation sampleEnv (mkExpectation 42 (JNum 0) 19905 20088 True)
        [mkRow 1 42 19723 19904 True, mkRow 2 42 19905 20088 False]))
   \<and> fst (updateExpectationData sampleEnv 1 (mkExpectation 42 (JNum 0) 19723 20088 True)
        [mkRow 1 42 19723 19904 True, mkRow 2 42 19905 20088 False]) = Inr ()
   \<and> no_overlap (snd (updateExpectationData sampleEnv 1
        (mkExpectation 42 (JNum 0) 19723 20088 True)
        [mkRow 1 42 19723 19904 True, mkRow 2 42 19905 20088 False]))
   \<and> fst (setExpectationStatus sampleEnv 2 True
        [mkRow 1 42 19723 19904 True, mkRow 2 42 19905 20088 False]) = Inr ()
   \<and> no_overlap (snd (setExpectationStatus sampleEnv 2 True
        [mkRow 1 42 19723 19904 True, mkRow 2 42 19905 20088 False]))"
proof -
  let ?s = "[mkRow 1 42 19723 19904 True, mkRow 2 42 19905 20088 False]"
  let ?e = "mkExpectation 42 (JNum 0) 19905 20088 True"
  let ?e' = "mkExpectation 42 (JNum 0) 19723 20088 True"
  have h1: "no_overlap ?s" by code_simp
  have h2: "distinct (map expId ?s)" by code_simp
  have h3': "list_all (\<lambda>x. expId x \<noteq> -1) ?s" by code_simp
  have h4': "list_all (\<lambda>x. \<bar>expId x\<bar> < 10 ^ 21) ?s" by code_simp
  have h3: "\<forall>x\<in>set ?s. expId x \<noteq> -1" using h3' by (simp only: list_all_iff)
  have h4: "\<forall>x\<in>set ?s. \<bar>expId x\<bar> < 10 ^ 21" using h4' by (simp only: list_all_iff)
  have a: "fst (addNewExpectation sampleEnv ?e ?s) = Inr 3" by code_simp
  have u: "fst (updateExpectationData sampleEnv 1 ?e' ?s) = Inr ()" by code_simp
  have t: "fst (setExpectationStatus sampleEnv 2 True ?s) = Inr ()" by code_simp
  show ?thesis
    using h1 h2 h3' h4' a u t
      no_overlap_preserved [OF h1 h2 h3 h4, of sampleEnv ?e 3 1 ?e' 2 True]
    by blast
qed

text \<open>
  Without the conditions on the ids the invariant can be lost. A row whose id is -1 is
  skipped by the check of an insertion, so an expectation with the same resource, type and
  dates is added next to it. When two rows carry the id 1, an update of id 1 rewrites the
  first and skips the second in its check, so the first can be moved onto the second. And
  an update of the row with id 10^21 excludes id 1 from its check, \<^verbatim>\<open>parseInt\<close> reading 1
  from \<^verbatim>\<open>1e+21\<close>, so that row can be moved onto row 1.
\<close>

theorem no_overlap_broken_on_malformed_ids:
  "no_overlap [mkRow (-1) 42 19723 19904 True]
   \<and> fst (addNewExpectation sampleEnv (mkExpectation 42 (JNum 0) 19723 19904 True)
        [mkRow (-1) 42 19723 19904 True]) = Inr 0
   \<and> \<not> no_overlap (snd (addNewExpectation sampleEnv
        (mkExpectation 42 (JNum 0) 19723 19904 True) [mkRow (-1) 42 19723 19904 True]))
   \<and> no_overlap [mkRow 1 42 19723 19904 True, mkRow 1 43 19723 19904 True]
   \<and> fst (updateExpectationData sampleEnv 1 (mkExpectation 43 (JNum 0) 19723 19904 True)
        [mkRow 1 42 19723 19904 True, mkRow 1 43 19723 19904 True]) = Inr ()
   \<and> \<not> no_overlap (snd (updateExpectationData sampleEnv 1
        (mkExpectation 43 (JNum 0) 19723 19904 True)
        [mkRow 1 42 19723 19904 True, mkRow 1 43 19723 19904 True]))
   \<and> no_overlap [mkRow (10 ^ 21) 42 19723 19904 True, mkRow 1 43 19723 19904 True]
   \<and> fst (updateExpectationData sampleEnv (10 ^ 21)
        (mkExpectation 43 (JNum 0) 19723 19904 True)
        [mkRow (10 ^ 21) 42 19723 19904 True, mkRow 1 43 19723 19904 True]) = Inr ()
   \<and> \<not> no_overlap (snd (updateExpectationData sampleEnv (10 ^ 21)
        (mkExpectation 43 (JNum 0) 19723 19904 True)
        [mkRow (10 ^ 21) 42 19723 19904 True, mkRow 1 43 19723 19904 True]))"
  by code_simp

section \<open>Identifier assignment\<close>

text \<open>
  C7, as amended. A successful \<^verbatim>\<open>addNewExpectation\<close> happens only on a sheet with at least
  one data row, and the row it appends carries the id it returns. When the maximum
  existing id is at least -2^53 and below 2^53, where adding 1 to a double is exact, that
  id is one greater than the maximum existing id. There is no seed id: on a sheet without
  data rows the operation fails and writes nothing.
\<close>

theorem addNewExpectation_newId:
  "(fst (addNewExpectation ev e sheet) = Inr n \<longrightarrow>
      sheet \<noteq> [] \<and>
      map expId (snd (addNewExpectation ev e sheet)) = map expId sheet @ [n] \<and>
      (- (2 ^ 53) \<le> Max (set (map expId sheet)) \<and> Max (set (map expId sheet)) < 2 ^ 53 \<longrightarrow>
         n = Max (set (map expId sheet)) + 1))
   \<and> (\<exists>err. addNewExpectation ev e [] = (Inl err, []))"
proof -
  have "n = Max (set (map expId sheet)) + 1"
    if ok: "fst (addNewExpectation ev e sheet) = Inr n"
      and lo: "- (2 ^ 53) \<le> Max (set (map expId sheet))"
      and hi: "Max (set (map expId sheet)) < 2 ^ 53"
  proof -
    have "dblRound (Max (set (map expId sheet)) + 1) = Max (set (map expId sheet)) + 1"
      using lo hi by (intro dblRound_exact) simp_all
    then show ?thesis using add_newId [OF ok] by simp
  qed
  then show ?thesis
    using add_newId [of ev e sheet n] add_ids [of ev e sheet n] add_empty [of ev e] by blast
qed

text \<open>With the ids 1 and 5 in the sheet, the new row gets the id 6.\<close>

theorem addNewExpectation_newId_witness:
  "fst (addNewExpectation sampleEnv (mkExpectation 42 (JNum 0) 19905 20088 True)
          [mkRow 1 42 19723 19904 True, mkRow 5 42 19905 20088 False]) = Inr 6
   \<and> - (2 ^ 53) \<le> Max (set (map expId [mkRow 1 42 19723 19904 True, mkRow 5 42 19905 20088 False]))
   \<and> Max (set (map expId [mkRow 1 42 19723 19904 True, mkRow 5 42 19905 20088 False])) < 2 ^ 53
   \<and> Max (set (map expId [mkRow 1 42 19723 19904 True, mkRow 5 42 19905 20088 False])) + 1 = 6
   \<and> map expId (snd (addNewExpectation sampleEnv (mkExpectation 42 (JNum 0) 19905 20088 True)
          [mkRow 1 42 19723 19904 True, mkRow 5 42 19905 20088 False])) = [1, 5, 6]"
proof -
  let ?s = "[mkRow 1 42 19723 19904 True, mkRow 5 42 19905 20088 False]"
  let ?e = "mkExpectation 42 (JNum 0) 19905 20088 True"
  have ok: "fst (addNewExpectation sampleEnv ?e ?s) = Inr 6" by code_simp
  have ids: "map expId ?s = [1, 5]" by code_simp
  have mx: "Max (set (map expId ?s)) = 5" unfolding ids by simp
  have lo: "- (2 ^ 53) \<le> Max (set (map expId ?s))" unfolding mx by simp
  have hi: "Max (set (map expId ?s)) < 2 ^ 53" unfolding mx by simp
  from addNewExpectation_newId [of sampleEnv ?e ?s 6] ok lo hi
  have "6 = Max (set (map expId ?s)) + 1"
    and "map expId (snd (addNewExpectation sampleEnv ?e ?s)) = map expId ?s @ [6]" by blast+
  then show ?thesis using ok ids lo hi by simp
qed

text \<open>
  On a sheet without data rows the first read of the sheet throws; no id is assigned and
  no row is written. With the id 2^53 in the sheet the sum 2^53 + 1 is not a double and
  rounds to 2^53: the new row gets the id that is already there. With the id -2^53 - 2 the
  sum rounds to -2^53, which is two greater.
\<close>

theorem addNewExpectation_no_seed_no_exact_sum:
  "addNewExpectation sampleEnv (mkExpectation 42 (JNum 0) 19723 20088 True) []
     = (Inl RangeException, [])
   \<and> fst (addNewExpectation sampleEnv (mkExpectation 42 (JNum 0) 19905 20088 True)
        [mkRow (2 ^ 53) 42 19723 19904 True]) = Inr (2 ^ 53)
   \<and> fst (addNewExpectation sampleEnv (mkExpectation 42 (JNum 0) 19905 20088 True)
        [mkRow (- (2 ^ 53) - 2) 42 19723 19904 True]) = Inr (- (2 ^ 53))"
  by code_simp

section \<open>Insertion and the validator\<close>

text \<open>
  C2. \<^verbatim>\<open>addNewExpectation\<close> does not call the validator. A candidate with a performance
  count of -1, which the validator rejects, is appended to the sheet under the id 2; so is
  a candidate whose end date 2024-07-01 lies before its start date 2024-12-31.
\<close>

theorem addNewExpectation_skips_validation:
  "validateExpectation sampleEnv (mkExpectation 42 (JNum (-1)) 19905 20088 True)
     = Inl ValidationFailed
   \<and> addNewExpectation sampleEnv (mkExpectation 42 (JNum (-1)) 19905 20088 True)
        [mkRow 1 42 19723 19904 True]
      = (Inr 2, [mkRow 1 42 19723 19904 True,
           \<lparr>resourceId = 42, performance = JNum (-1), oneToOne = JNum 1, sideBySide = JNum 0,
            startDate = Some (19905 * msPerDay), endDate = Some (20088 * msPerDay),
            expectationType = ''Agent'',
            active = True, expId = 2, createdBy = Some 7, createdDate = Some ''2024-01-15'',
            modifiedBy = None, modifiedDate = None\<rparr>])
   \<and> validateExpectation sampleEnv (mkExpectation 42 (JNum 0) 20088 19905 True)
     = Inl ValidationFailed
   \<and> fst (addNewExpectation sampleEnv (mkExpectation 42 (JNum 0) 20088 19905 True)
        [mkRow 1 42 19723 19904 True]) = Inr 2"
  by code_simp

section \<open>Self-exclusion\<close>

text \<open>An update of an id below 10^21 never reports a conflict when every row that passes
  the detector's tests for the candidate is the row being updated: the id is passed as the
  exclusion.\<close>

lemma update_self_exclusion:
  assumes "\<bar>i\<bar> < 10 ^ 21"
    and "\<forall>r\<in>set sheet. active r \<and> resourceId r = resourceId e \<and>
      expectationType r = expectationType e \<and>
      overlapTest (startDate e) (endDate e) (startDate r) (endDate r) \<longrightarrow> expId r = i"
  shows "fst (updateExpectationData ev i e sheet) \<noteq> Inl (ConflictingExpectation c)"
proof -
  have "scanRows sheet (resourceId e) (expectationType e) (startDate e) (endDate e) i = -1"
    using assms(2) by (intro scanRows_no_match) blast
  then show ?thesis using assms(1)
    by (auto simp: updateExpectationData_def checkForOverlap_def getRange3_def Let_def
             parseInt_small split: sum.splits dest: validateExpectation_error)
qed

text \<open>
  C5. \<^verbatim>\<open>setExpectationStatus\<close> calls the detector without the id of the row: on a sheet
  whose only row is the active row 1, setting row 1 active is refused as a conflict with
  row 1 itself, and nothing is written. \<^verbatim>\<open>updateExpectationData\<close> on the same sheet, with
  the same resource, type and dates, passes the id and succeeds.
\<close>

theorem setExpectationStatus_reports_self:
  "setExpectationStatus sampleEnv 1 True [mkRow 1 42 19723 19904 True]
     = (Inl (ConflictingExpectation 1), [mkRow 1 42 19723 19904 True])
   \<and> fst (updateExpectationData sampleEnv 1 (mkExpectation 42 (JNum 0) 19723 19904 True)
        [mkRow 1 42 19723 19904 True]) = Inr ()"
  by code_simp

section \<open>Deactivation\<close>

text \<open>
  C6. \<^verbatim>\<open>setExpectationStatus\<close> with \<^verbatim>\<open>isActive = false\<close> never fails with a conflict
  error, whatever rows the sheet holds; for an id that exists in the sheet (and with the
  spreadsheet configured) it succeeds.
\<close>

theorem deactivation_never_conflicts:
  "fst (setExpectationStatus ev i False sheet) \<noteq> Inl (ConflictingExpectation c)
   \<and> (coachingSheet ev \<longrightarrow> i \<in> set (map expId sheet) \<longrightarrow>
        fst (setExpectationStatus ev i False sheet) = Inr ())"
proof -
  have a: "fst (setExpectationStatus ev i False sheet) \<noteq> Inl (ConflictingExpectation c)"
    by (simp add: setExpectationStatus_def statusOverlapCheck_def getRange3_def Let_def)
  have b: "fst (setExpectationStatus ev i False sheet) = Inr ()"
    if cs: "coachingSheet ev" and mem: "i \<in> set (map expId sheet)"
  proof -
    from mem have ne: "sheet \<noteq> []" by auto
    have found: "findIndex (\<lambda>r. expId r = i) sheet \<noteq> -1"
      using findIndex_none [of "\<lambda>r. expId r = i" sheet] mem by auto
    from findIndex_found [OF found] have "0 \<le> findIndex (\<lambda>r. expId r = i) sheet" by simp
    then show ?thesis using cs ne
      by (simp add: setExpectationStatus_def statusOverlapCheck_def getRange3_def Let_def)
  qed
  show ?thesis using a b by blast
qed

text \<open>Rows 1 and 2 are both active with the same resource, type and dates; archiving
  row 2 succeeds all the same.\<close>

theorem deactivation_never_conflicts_witness:
  "coachingSheet sampleEnv
   \<and> 2 \<in> set (map expId [mkRow 1 42 19723 19904 True, mkRow 2 42 19723 19904 True])
   \<and> \<not> no_overlap [mkRow 1 42 19723 19904 True, mkRow 2 42 19723 19904 True]
   \<and> fst (setExpectationStatus sampleEnv 2 False
            [mkRow 1 42 19723 19904 True, mkRow 2 42 19723 19904 True]) = Inr ()"
proof -
  let ?s = "[mkRow 1 42 19723 19904 True, mkRow 2 42 19723 19904 True]"
  have h1: "coachingSheet sampleEnv" by code_simp
  have h2: "2 \<in> set (map expId ?s)" by code_simp
  have h3: "\<not> no_overlap ?s" by code_simp
  show ?thesis
    using h1 h2 h3 deactivation_never_conflicts [of sampleEnv 2 ?s] by blast
qed

section \<open>Failures write nothing\<close>

text \<open>
  C8. Whenever \<^verbatim>\<open>addNewExpectation\<close>, \<^verbatim>\<open>updateExpectationData\<close> or
  \<^verbatim>\<open>setExpectationStatus\<close> fails, with whatever error, the sheet it leaves is the sheet it
  was given: no row is appended and no cell is changed.
\<close>

theorem failure_leaves_sheet_unchanged:
  "(fst (addNewExpectation ev e sheet) = Inl err \<longrightarrow>
      snd (addNewExpectation ev e sheet) = sheet)
   \<and> (fst (updateExpectationData ev i e sheet) = Inl err \<longrightarrow>
      snd (updateExpectationData ev i e sheet) = sheet)
   \<and> (fst (setExpectationStatus ev i b sheet) = Inl err \<longrightarrow>
      snd (setExpectationStatus ev i b sheet) = sheet)"
proof (intro conjI impI)
  assume "fst (addNewExpectation ev e sheet) = Inl err"
  then show "snd (addNewExpectation ev e sheet) = sheet"
    by (auto simp: addNewExpectation_def Let_def split: if_splits sum.splits option.splits)
next
  assume "fst (updateExpectationData ev i e sheet) = Inl err"
  then show "snd (updateExpectationData ev i e sheet) = sheet"
    by (auto simp: updateExpectationData_def Let_def split: if_splits sum.splits)
next
  assume "fst (setExpectationStatus ev i b sheet) = Inl err"
  then show "snd (setExpectationStatus ev i b sheet) = sheet"
    by (auto simp: setExpectationStatus_def Let_def split: if_splits sum.splits)
qed

text \<open>An insertion refused for a conflict with row 1, an update refused by the validator,
  and a status change for the unknown id 9 each leave the two rows as they were.\<close>

theorem failure_leaves_sheet_unchanged_witness:
  "fst (addNewExpectation sampleEnv (mkExpectation 42 (JNum 0) 19904 20088 True)
        [mkRow 1 42 19723 19904 True, mkRow 2 42 19905 20088 False])
     = Inl (ConflictingExpectation 1)
   \<and> snd (addNewExpectation sampleEnv (mkExpectation 42 (JNum 0) 19904 20088 True)
        [mkRow 1 42 19723 19904 True, mkRow 2 42 19905 20088 False])
     = [mkRow 1 42 19723 19904 True, mkRow 2 42 19905 20088 False]
   \<and> fst (updateExpectationData sampleEnv 1 (mkExpectation 42 (JNum (-1)) 19723 19904 True)
        [mkRow 1 42 19723 19904 True, mkRow 2 42 19905 20088 False])
     = Inl ValidationFailed
   \<and> snd (updateExpectationData sampleEnv 1 (mkExpectation 42 (JNum (-1)) 19723 19904 True)
        [mkRow 1 42 19723 19904 True, mkRow 2 42 19905 20088 False])
     = [mkRow 1 42 19723 19904 True, mkRow 2 42 19905 20088 False]
   \<and> fst (setExpectationStatus sampleEnv 9 True
        [mkRow 1 42 19723 19904 True, mkRow 2 42 19905 20088 False])
     = Inl (NotFound 9)
   \<and> snd (setExpectationStatus sampleEnv 9 True
        [mkRow 1 42 19723 19904 True, mkRow 2 42 19905 20088 False])
     = [mkRow 1 42 19723 19904 True, mkRow 2 42 19905 20088 False]"
proof -
  let ?s = "[mkRow 1 42 19723 19904 True, mkRow 2 42 19905 20088 False]"
  let ?e = "mkExpectation 42 (JNum 0) 19904 20088 True"
  let ?e' = "mkExpectation 42 (JNum (-1)) 19723 19904 True"
  have a: "fst (addNewExpectation sampleEnv ?e ?s) = Inl (ConflictingExpectation 1)"
    by code_simp
  have u: "fst (updateExpectationData sampleEnv 1 ?e' ?s) = Inl ValidationFailed"
    by code_simp
  have t: "fst (setExpectationStatus sampleEnv 9 True ?s) = Inl (NotFound 9)"
    by code_simp
  show ?thesis
    using a u t
      failure_leaves_sheet_unchanged [of sampleEnv ?e ?s "ConflictingExpectation 1"]
      failure_leaves_sheet_unchanged [of sampleEnv ?e' ?s ValidationFailed 1]
      failure_leaves_sheet_unchanged [of sampleEnv ?e ?s "NotFound 9" 9 True]
    by blast
qed

section \<open>The expectation functions and the script lock\<close>

text \<open>What \<^verbatim>\<open>_withLock\<close> does when another execution keeps the lock: the wait runs out,
  the error is passed on and the callback is not run.\<close>

lemma withLock_timeout:
  "scriptLock w = HeldElsewhere \<Longrightarrow> withLock callback w = (Inl LockTimeout, w)"
  by (simp add: withLock_def)

text \<open>With a free lock the callback runs while this execution holds the lock, and the
  lock is free again afterwards when the callback leaves it held.\<close>

lemma withLock_free:
  "scriptLock w = LockFree \<Longrightarrow> callback (w\<lparr>scriptLock := HeldHere\<rparr>) = (r, w') \<Longrightarrow>
   scriptLock w' = HeldHere \<Longrightarrow> withLock callback w = (r, w'\<lparr>scriptLock := LockFree\<rparr>)"
  by (simp add: withLock_def)

text \<open>The expectation functions neither take nor release the lock, and none of them ever
  fails with a lock timeout.\<close>

lemma onSheet_lock: "scriptLock (snd (onSheet operation w)) = scriptLock w"
  by (simp add: onSheet_def split: prod.splits)

lemma addNewExpectation_no_timeout: "fst (addNewExpectation ev e sheet) \<noteq> Inl LockTimeout"
  by (auto simp: addNewExpectation_def checkForOverlap_def getRange3_def Let_def
           split: if_splits sum.splits option.splits)

lemma updateExpectationData_no_timeout:
  "fst (updateExpectationData ev i e sheet) \<noteq> Inl LockTimeout"
  by (auto simp: updateExpectationData_def checkForOverlap_def getRange3_def Let_def
           split: if_splits sum.splits dest: validateExpectation_error)

lemma setExpectationStatus_no_timeout:
  "fst (setExpectationStatus ev i b sheet) \<noteq> Inl LockTimeout"
  by (auto simp: setExpectationStatus_def statusOverlapCheck_def checkForOverlap_def
           getRange3_def Let_def split: if_splits sum.splits)

text \<open>
  C9. None of the three expectation functions takes the script lock. While another
  execution holds the lock, \<^verbatim>\<open>addNewExpectation\<close> reads the sheet holding row 1 and appends
  a row under the id 2, \<^verbatim>\<open>updateExpectationData\<close> rewrites row 1 and
  \<^verbatim>\<open>setExpectationStatus\<close> archives it; each succeeds, none reports a lock timeout, and the
  lock is still with the other execution. Run under \<^verbatim>\<open>_withLock\<close>, as the functions for
  forms and questions are, the same insertion stops with the lock timeout and writes
  nothing.
\<close>

theorem expectation_operations_take_no_lock:
  "fst (onSheet (addNewExpectation sampleEnv (mkExpectation 42 (JNum 0) 19905 20088 True))
          \<lparr>scriptLock = HeldElsewhere, sheetRows = [mkRow 1 42 19723 19904 True]\<rparr>) = Inr 2
   \<and> scriptLock (snd (onSheet
          (addNewExpectation sampleEnv (mkExpectation 42 (JNum 0) 19905 20088 True))
          \<lparr>scriptLock = HeldElsewhere, sheetRows = [mkRow 1 42 19723 19904 True]\<rparr>))
       = HeldElsewhere
   \<and> map expId (sheetRows (snd (onSheet
          (addNewExpectation sampleEnv (mkExpectation 42 (JNum 0) 19905 20088 True))
          \<lparr>scriptLock = HeldElsewhere, sheetRows = [mkRow 1 42 19723 19904 True]\<rparr>)))
       = [1, 2]
   \<and> fst (onSheet (updateExpectationData sampleEnv 1
            (mkExpectation 42 (JNum 0) 19723 20088 True))
          \<lparr>scriptLock = HeldElsewhere, sheetRows = [mkRow 1 42 19723 19904 True]\<rparr>) = Inr ()
   \<and> map endDate (sheetRows (snd (onSheet (updateExpectationData sampleEnv 1
            (mkExpectation 42 (JNum 0) 19723 20088 True))
          \<lparr>scriptLock = HeldElsewhere, sheetRows = [mkRow 1 42 19723 19904 True]\<rparr>)))
       = [Some (20088 * msPerDay)]
   \<and> fst (onSheet (setExpectationStatus sampleEnv 1 False)
          \<lparr>scriptLock = HeldElsewhere, sheetRows = [mkRow 1 42 19723 19904 True]\<rparr>) = Inr ()
   \<and> map active (sheetRows (snd (onSheet (setExpectationStatus sampleEnv 1 False)
          \<lparr>scriptLock = HeldElsewhere, sheetRows = [mkRow 1 42 19723 19904 True]\<rparr>)))
       = [False]
   \<and> withLock (onSheet
          (addNewExpectation sampleEnv (mkExpectation 42 (JNum 0) 19905 20088 True)))
          \<lparr>scriptLock = HeldElsewhere, sheetRows = [mkRow 1 42 19723 19904 True]\<rparr>
       = (Inl LockTimeout,
          \<lparr>scriptLock = HeldElsewhere, sheetRows = [mkRow 1 42 19723 19904 True]\<rparr>)"
  by code_simp

end
